theory Spec2Isabelle
  imports Complex_Main "HOL-Library.Log_Nat"
begin

section \<open>EKG stream decoding and rolling-window plotting\<close>

text \<open>
  A shallow embedding of the decode-and-windowing code of the EKG visualizers:
  \<^verbatim>\<open>main1.py\<close> (12-channel WebSocket variant), \<^verbatim>\<open>mainSingle.py\<close> (single-channel
  batched WebSocket variant) and \<^verbatim>\<open>main.py\<close> (dual-channel serial variant).

  Python \<^verbatim>\<open>str\<close> values are modelled as \<^typ>\<open>string\<close>; a \<^typ>\<open>char\<close> stands for the
  code point of the same number (0 to 255). Python \<^verbatim>\<open>int\<close> is \<^typ>\<open>int\<close>.
\<close>

subsection \<open>Clamping (\<^verbatim>\<open>DataProcessor.process_value\<close>, identical in main1.py and mainSingle.py)\<close>

definition process_value :: "int \<Rightarrow> int" where
  "process_value raw_value =
     (if raw_value < 0 then 0
      else if raw_value > 4095 then 4095
      else raw_value)"

subsection \<open>Python string primitives used by the decoders\<close>

text \<open>
  \<^verbatim>\<open>str.isspace\<close> on one character: the code points below 256 that Python treats as
  white space are 9 to 13, 28 to 31, 32, 133 and 160.
\<close>

definition isspace :: "char \<Rightarrow> bool" where
  "isspace c = ((of_char c :: nat) \<in> {9, 10, 11, 12, 13, 28, 29, 30, 31, 32, 133, 160})"

text \<open>\<^verbatim>\<open>str.strip()\<close>: drops leading and trailing white space.\<close>

definition strip :: "string \<Rightarrow> string" where
  "strip s = rev (dropWhile isspace (rev (dropWhile isspace s)))"

text \<open>
  \<^verbatim>\<open>str.split(sep)\<close> for a one-character separator: every occurrence separates, so
  the result always has one element more than there are separators (\<^verbatim>\<open>''.split(',')\<close>
  is \<^verbatim>\<open>['']\<close>).
\<close>

fun split :: "char \<Rightarrow> string \<Rightarrow> string list" where
  "split sep [] = [[]]"
| "split sep (c # cs) =
     (if c = sep then [] # split sep cs
      else (c # hd (split sep cs)) # tl (split sep cs))"

text \<open>
  \<^verbatim>\<open>int(s, 16)\<close>, following CPython's \<^verbatim>\<open>PyLong_FromString\<close>: optional white space, an
  optional sign, an optional \<^verbatim>\<open>0x\<close>/\<^verbatim>\<open>0X\<close> prefix (which may be followed by one
  underscore), then hexadecimal digits with single underscores allowed between
  them, then optional white space to the end. Anything else raises
  \<^verbatim>\<open>ValueError\<close>, which is \<^const>\<open>None\<close> here. The white space \<^verbatim>\<open>int\<close> accepts is
  smaller than that of \<^verbatim>\<open>str.isspace\<close>: code points 28 to 31 are not skipped.
\<close>

definition int_space :: "char \<Rightarrow> bool" where
  "int_space c = ((of_char c :: nat) \<in> {9, 10, 11, 12, 13, 32, 133, 160})"

definition digit_value :: "char \<Rightarrow> nat option" where
  "digit_value c =
     (let n = (of_char c :: nat) in
      if 48 \<le> n \<and> n \<le> 57 then Some (n - 48)
      else if 97 \<le> n \<and> n \<le> 102 then Some (n - 87)
      else if 65 \<le> n \<and> n \<le> 70 then Some (n - 55)
      else None)"

text \<open>
  The digit loop of \<^verbatim>\<open>long_from_binary_base\<close>: \<open>prev\<close> is the previous character
  (initially NUL). It stops at the first character that is neither a digit nor
  an underscore and returns the value read and the unread rest; two underscores
  in a row or an underscore just before the stop are errors.
\<close>

fun scan_digits :: "int \<Rightarrow> char \<Rightarrow> string \<Rightarrow> (int \<times> string) option" where
  "scan_digits acc prev [] = (if prev = CHR ''_'' then None else Some (acc, []))"
| "scan_digits acc prev (c # cs) =
     (if c = CHR ''_'' then (if prev = CHR ''_'' then None else scan_digits acc c cs)
      else (case digit_value c of
              Some d \<Rightarrow> scan_digits (16 * acc + int d) c cs
            | None \<Rightarrow> (if prev = CHR ''_'' then None else Some (acc, c # cs))))"

definition skip_sign :: "string \<Rightarrow> int \<times> string" where
  "skip_sign s =
     (case s of
        [] \<Rightarrow> (1, s)
      | c # r \<Rightarrow> if c = CHR ''+'' then (1, r) else if c = CHR ''-'' then (- 1, r) else (1, s))"

definition skip_prefix :: "string \<Rightarrow> string" where
  "skip_prefix s =
     (case s of
        a # b # r \<Rightarrow>
          if a = CHR ''0'' \<and> (b = CHR ''x'' \<or> b = CHR ''X'')
          then (case r of u # r' \<Rightarrow> if u = CHR ''_'' then r' else r | [] \<Rightarrow> r)
          else s
      | _ \<Rightarrow> s)"

definition int16 :: "string \<Rightarrow> int option" where
  "int16 s =
     (let (sign, s2) = skip_sign (dropWhile int_space s);
          body = skip_prefix s2
      in if body \<noteq> [] \<and> hd body = CHR ''_'' then None
         else (case scan_digits 0 (CHR 0x00) body of
                 None \<Rightarrow> None
               | Some (v, rest) \<Rightarrow>
                   if length rest = length body then None
                   else if dropWhile int_space rest \<noteq> [] then None
                   else Some (sign * v)))"

subsection \<open>12-channel decoder (\<^verbatim>\<open>DataProcessor.parse_hex_line\<close>, main1.py)\<close>

text \<open>
  The conversion loop of \<^verbatim>\<open>parse_hex_line\<close>: \<open>processed_values\<close> is the list built so
  far. A \<^verbatim>\<open>ValueError\<close> from \<^verbatim>\<open>int\<close> leaves the loop through the \<^verbatim>\<open>except\<close> clause,
  which returns \<^verbatim>\<open>None\<close>.
\<close>

fun convert_line :: "int list \<Rightarrow> string list \<Rightarrow> int list option" where
  "convert_line processed_values [] = Some processed_values"
| "convert_line processed_values (hex_val # hex_values) =
     (case int16 hex_val of
        None \<Rightarrow> None
      | Some decimal_val \<Rightarrow>
          convert_line (processed_values @ [process_value decimal_val]) hex_values)"

definition parse_hex_line :: "string \<Rightarrow> int list option" where
  "parse_hex_line hex_line =
     (let hex_values = split (CHR '','') (strip hex_line)
      in if length hex_values \<noteq> 12 then None
         else convert_line [] hex_values)"

subsection \<open>Single-channel batch decoder (\<^verbatim>\<open>DataProcessor.parse_hex_data\<close>, mainSingle.py)\<close>

text \<open>
  Here a token whose \<^verbatim>\<open>strip()\<close> is empty is skipped, there is no token count check,
  and the \<^verbatim>\<open>except\<close> clause returns the empty list.
\<close>

fun convert_data :: "int list \<Rightarrow> string list \<Rightarrow> int list" where
  "convert_data processed_values [] = processed_values"
| "convert_data processed_values (hex_val # hex_values) =
     (if strip hex_val \<noteq> [] then
        (case int16 hex_val of
           None \<Rightarrow> []
         | Some decimal_val \<Rightarrow>
             convert_data (processed_values @ [process_value decimal_val]) hex_values)
      else convert_data processed_values hex_values)"

definition parse_hex_data :: "string \<Rightarrow> int list" where
  "parse_hex_data hex_data = convert_data [] (split (CHR '','') (strip hex_data))"

subsection \<open>Bounded buffers (\<^verbatim>\<open>collections.deque(maxlen=n)\<close>)\<close>

text \<open>
  \<^verbatim>\<open>deque.append\<close> adds the item on the right; when the length then exceeds
  \<^verbatim>\<open>maxlen\<close>, one item is removed from the left.
\<close>

record 'a deque =
  items :: "'a list"
  maxlen :: nat

definition deque :: "nat \<Rightarrow> 'a deque" where
  "deque n = \<lparr>items = [], maxlen = n\<rparr>"

definition deque_append :: "'a deque \<Rightarrow> 'a \<Rightarrow> 'a deque" where
  "deque_append d x =
     (let xs = items d @ [x]
      in d\<lparr>items := (if maxlen d < length xs then tl xs else xs)\<rparr>)"

definition deque_clear :: "'a deque \<Rightarrow> 'a deque" where
  "deque_clear d = d\<lparr>items := []\<rparr>"

text \<open>A sequence of pushes, in order.\<close>

fun push_all :: "'a deque \<Rightarrow> 'a list \<Rightarrow> 'a deque" where
  "push_all d [] = d"
| "push_all d (x # xs) = push_all (deque_append d x) xs"

subsection \<open>Python floats\<close>

text \<open>
  A Python \<^verbatim>\<open>float\<close> is an IEEE-754 binary64 number. It is modelled as the real number
  it denotes, and every arithmetic operation returns the exact result rounded to
  the nearest number with a significand of 53 bits, ties going to the even
  significand (\<open>fl\<close>). The exponent range is not modelled: there is no overflow to
  infinity and there are no subnormal numbers, which takes magnitudes above
  \<open>2 ^ 1024\<close> or below \<open>2 ^ - 1022\<close> to matter.
\<close>

text \<open>Rounding to the nearest integer, ties to even.\<close>

definition round_even :: "real \<Rightarrow> int" where
  "round_even y =
     (let f = \<lfloor>y\<rfloor>; d = y - of_int f
      in if d < 1 / 2 then f
         else if 1 / 2 < d then f + 1
         else if even f then f else f + 1)"

text \<open>The binary exponent of a positive number: the \<open>k\<close> with \<open>2 ^ k \<le> x < 2 ^ (k + 1)\<close>.\<close>

definition ilog2 :: "real \<Rightarrow> int" where
  "ilog2 x =
     (if 1 \<le> x then bitlen \<lfloor>x\<rfloor> - 1
      else
        let j = bitlen \<lfloor>1 / x\<rfloor> - 1
        in if x * 2 ^ nat j = 1 then - j else - j - 1)"

definition fl_pos :: "real \<Rightarrow> real" where
  "fl_pos x =
     (let e = ilog2 x - 52
      in of_int (round_even (x / 2 powi e)) * 2 powi e)"

definition fl :: "real \<Rightarrow> real" where
  "fl x = (if x = 0 then 0 else if 0 < x then fl_pos x else - fl_pos (- x))"

definition fadd :: "real \<Rightarrow> real \<Rightarrow> real" where
  "fadd x y = fl (x + y)"

definition fsub :: "real \<Rightarrow> real \<Rightarrow> real" where
  "fsub x y = fl (x - y)"

definition fmul :: "real \<Rightarrow> real \<Rightarrow> real" where
  "fmul x y = fl (x * y)"

text \<open>Division of floats, for a divisor that is not zero.\<close>

definition fdiv :: "real \<Rightarrow> real \<Rightarrow> real" where
  "fdiv x y = fl (x / y)"

text \<open>The conversion of an \<^verbatim>\<open>int\<close> operand to \<^verbatim>\<open>float\<close>.\<close>

definition float_of_int :: "int \<Rightarrow> real" where
  "float_of_int i = fl (of_int i)"

subsection \<open>Plot widgets of the WebSocket variants\<close>

text \<open>
  Time stamps are Python floats (\<^verbatim>\<open>time.time()\<close>). The matplotlib objects are
  modelled by what the code writes into them: the data of the line
  (\<^verbatim>\<open>Line2D.set_data\<close>), the axis limits and the number of redraw requests.
\<close>

datatype error = IndexError | ZeroDivisionError

record buffers =
  time_data :: "real deque"

record plot_widget = buffers +
  ekg_data :: "int deque"
  line_data :: "real list \<times> int list"
  xlim :: "real \<times> real"
  ylim :: "real \<times> real"
  draws :: nat

record ekg_plot_widget = plot_widget +
  selected_channel :: int

text \<open>\<^verbatim>\<open>EKGPlotWidget.__init__\<close> with \<^verbatim>\<open>setup_plot\<close> (main1.py).\<close>

definition EKGPlotWidget :: ekg_plot_widget where
  "EKGPlotWidget =
     \<lparr>time_data = deque 400, ekg_data = deque 400, line_data = ([], []),
      xlim = (0, 10), ylim = (0, 4095), draws = 0, selected_channel = 0\<rparr>"

text \<open>\<^verbatim>\<open>SingleChannelPlotWidget.__init__\<close> with \<^verbatim>\<open>setup_plot\<close> (mainSingle.py).\<close>

definition SingleChannelPlotWidget :: plot_widget where
  "SingleChannelPlotWidget =
     \<lparr>time_data = deque 8600, ekg_data = deque 8600, line_data = ([], []),
      xlim = (0, 10), ylim = (0, 4095), draws = 0\<rparr>"

text \<open>
  \<^verbatim>\<open>EKGPlotWidget.update_plot\<close> (main1.py): returns at once with fewer than two time
  stamps; otherwise the line gets the time stamps shifted so that the latest is at
  10, the y axis is scaled to the data with a padding, the x axis is set to 0..10
  and the canvas is redrawn.
\<close>

definition EKGPlotWidget_update_plot :: "ekg_plot_widget \<Rightarrow> ekg_plot_widget" where
  "EKGPlotWidget_update_plot w =
     (if length (items (time_data w)) < 2 then w
      else
        let times = items (time_data w);
            values = items (ekg_data w);
            latest_time = last times;
            relative_times = map (\<lambda>t. fadd (fsub t latest_time) 10) times;
            w1 = w\<lparr>line_data := (relative_times, values)\<rparr>;
            w2 = (if length values > 0 then
                    let y_min = Min (set values);
                        y_max = Max (set values)
                    in if y_max > y_min then
                         let y_padding = fmul (float_of_int (y_max - y_min)) (fl (1 / 10))
                         in w1\<lparr>ylim := (fsub (float_of_int y_min) y_padding,
                                        fadd (float_of_int y_max) y_padding)\<rparr>
                       else w1\<lparr>ylim := (float_of_int (y_min - 200), float_of_int (y_max + 200))\<rparr>
                  else w1)
        in w2\<lparr>xlim := (0, 10), draws := draws w2 + 1\<rparr>)"

text \<open>
  Indexing a Python list with an integer: indices from \<open>- len\<close> up to \<open>-1\<close> address the
  list from its end, anything outside \<open>- len\<close> to \<open>len - 1\<close> raises.
\<close>

definition py_index :: "'a list \<Rightarrow> int \<Rightarrow> error + 'a" where
  "py_index xs i =
     (if 0 \<le> i \<and> i < int (length xs) then Inr (xs ! nat i)
      else if i < 0 \<and> - int (length xs) \<le> i then Inr (xs ! nat (int (length xs) + i))
      else Inl IndexError)"

text \<open>
  \<^verbatim>\<open>EKGPlotWidget.add_data_point\<close> (main1.py); \<open>current_time\<close> is the value
  \<^verbatim>\<open>time.time()\<close> returns inside it.
\<close>

definition EKGPlotWidget_add_data_point ::
  "ekg_plot_widget \<Rightarrow> real \<Rightarrow> int list \<Rightarrow> error + ekg_plot_widget" where
  "EKGPlotWidget_add_data_point w current_time channel_data =
     (if length channel_data \<noteq> 12 then Inr w
      else
        (case py_index channel_data (selected_channel w) of
           Inl e \<Rightarrow> Inl e
         | Inr channel_value \<Rightarrow>
             let w1 = w\<lparr>time_data := deque_append (time_data w) current_time,
                        ekg_data := deque_append (ekg_data w) channel_value\<rparr>
             in Inr (if length (items (time_data w1)) > 1 then EKGPlotWidget_update_plot w1
                     else w1)))"

text \<open>
  \<^verbatim>\<open>SingleChannelPlotWidget.update_plot\<close> (mainSingle.py): the same shift of the time
  stamps, with fixed axis limits and \<^verbatim>\<open>draw_idle\<close>.
\<close>

definition SingleChannelPlotWidget_update_plot :: "plot_widget \<Rightarrow> plot_widget" where
  "SingleChannelPlotWidget_update_plot w =
     (if length (items (time_data w)) < 2 then w
      else
        let times = items (time_data w);
            values = items (ekg_data w);
            latest_time = last times;
            relative_times = map (\<lambda>t. fadd (fsub t latest_time) 10) times
        in w\<lparr>line_data := (relative_times, values),
             xlim := (0, 10), ylim := (0, 4095), draws := draws w + 1\<rparr>)"

text \<open>
  The loop of \<^verbatim>\<open>SingleChannelPlotWidget.add_data_batch\<close>: \<open>n\<close> is \<^verbatim>\<open>len(values)\<close>, \<open>i\<close>
  the index \<^verbatim>\<open>enumerate\<close> gives to the next value. The time stamp is
  \<^verbatim>\<open>current_time + (i * 0.1 / len(values))\<close>, where \<^verbatim>\<open>0.1\<close> is the float nearest to one
  tenth; the division by \<^verbatim>\<open>len(values)\<close> raises \<^verbatim>\<open>ZeroDivisionError\<close> when the length
  is zero.
\<close>

fun add_samples ::
  "plot_widget \<Rightarrow> real \<Rightarrow> nat \<Rightarrow> nat \<Rightarrow> int list \<Rightarrow> error + plot_widget" where
  "add_samples w current_time n i [] = Inr w"
| "add_samples w current_time n i (value # rest) =
     (if n = 0 then Inl ZeroDivisionError
      else
        let timestamp =
              fadd current_time
                (fdiv (fmul (float_of_int (int i)) (fl (1 / 10))) (float_of_int (int n)))
        in add_samples
             (w\<lparr>time_data := deque_append (time_data w) timestamp,
                ekg_data := deque_append (ekg_data w) value\<rparr>)
             current_time n (Suc i) rest)"

definition SingleChannelPlotWidget_add_data_batch ::
  "plot_widget \<Rightarrow> real \<Rightarrow> int list \<Rightarrow> error + plot_widget" where
  "SingleChannelPlotWidget_add_data_batch w current_time values =
     (case add_samples w current_time (length values) 0 values of
        Inl e \<Rightarrow> Inl e
      | Inr w1 \<Rightarrow>
          Inr (if length (items (time_data w1)) > 1 then SingleChannelPlotWidget_update_plot w1
               else w1))"

subsection \<open>WebSocket message handlers\<close>

text \<open>
  A WebSocket message is a text frame (a \<^verbatim>\<open>str\<close>) or a binary frame (\<^verbatim>\<open>bytes\<close>). The
  handlers are modelled by what they do with one message: the lists they emit
  through the \<^verbatim>\<open>data_received\<close> signal, in order, and the reply they send.
\<close>

datatype message = Text string | Binary string

text \<open>The loop over the lines of a message in \<^verbatim>\<open>handle_client\<close> of main1.py.\<close>

fun emit_lines :: "string list \<Rightarrow> int list list" where
  "emit_lines [] = []"
| "emit_lines (line # lines) =
     (if strip line \<noteq> [] then
        (case parse_hex_line line of
           None \<Rightarrow> emit_lines lines
         | Some processed_data \<Rightarrow>
             if processed_data \<noteq> [] \<and> length processed_data = 12
             then processed_data # emit_lines lines
             else emit_lines lines)
      else emit_lines lines)"

definition EKG_handle_message :: "message \<Rightarrow> int list list \<times> string option" where
  "EKG_handle_message m =
     (case m of
        Binary _ \<Rightarrow> ([], None)
      | Text s \<Rightarrow>
          if strip s \<noteq> [] then (emit_lines (split (CHR 0x0A) (strip s)), Some ''OK'')
          else ([], None))"

text \<open>
  \<^verbatim>\<open>handle_client\<close> of mainSingle.py: the whole message is one batch, forwarded only
  when the parse result is a non-empty list.
\<close>

definition Single_handle_message :: "message \<Rightarrow> int list list \<times> string option" where
  "Single_handle_message m =
     (case m of
        Binary _ \<Rightarrow> ([], None)
      | Text s \<Rightarrow>
          if strip s \<noteq> [] then
            (let processed_data = parse_hex_data s
             in if processed_data \<noteq> [] then ([processed_data], Some ''OK'')
                else ([], Some ''OK''))
          else ([], None))"

text \<open>
  The slots \<^verbatim>\<open>MainWindow.on_data_received\<close>, applied to the emitted lists in order;
  each delivery reads the clock once, so the deliveries come with their clock
  readings. An exception stops the delivery.
\<close>

fun EKG_deliver :: "ekg_plot_widget \<Rightarrow> (real \<times> int list) list \<Rightarrow> error + ekg_plot_widget" where
  "EKG_deliver w [] = Inr w"
| "EKG_deliver w ((current_time, channel_data) # later) =
     (case EKGPlotWidget_add_data_point w current_time channel_data of
        Inl e \<Rightarrow> Inl e
      | Inr w' \<Rightarrow> EKG_deliver w' later)"

fun Single_deliver :: "plot_widget \<Rightarrow> (real \<times> int list) list \<Rightarrow> error + plot_widget" where
  "Single_deliver w [] = Inr w"
| "Single_deliver w ((current_time, values) # later) =
     (case SingleChannelPlotWidget_add_data_batch w current_time values of
        Inl e \<Rightarrow> Inl e
      | Inr w' \<Rightarrow> Single_deliver w' later)"

subsection \<open>JSON text (\<^verbatim>\<open>json.loads\<close>, used by main.py)\<close>

text \<open>
  \<^verbatim>\<open>json.loads\<close> belongs to Python's library. It is modelled as the library's scanner
  reads a text: white space is blank, tab, line feed and carriage return; a number
  is \<^verbatim>\<open>-?(0|[1-9][0-9]*)(\.[0-9]+)?([eE][-+]?[0-9]+)?\<close>, an integer when it has neither
  fraction nor exponent; \<^verbatim>\<open>NaN\<close>, \<^verbatim>\<open>Infinity\<close> and \<^verbatim>\<open>-Infinity\<close> are accepted; a string
  may not contain a control character and its escapes must be well formed.
  \<^const>\<open>None\<close> stands for \<^verbatim>\<open>JSONDecodeError\<close>. A float keeps its literal and a string
  its text between the quotes as written (escapes not decoded); an object keeps its
  members in order. The interpreter's resource limits (recursion depth, digits of
  an integer literal) are not modelled.
\<close>

datatype json =
    JNull
  | JBool bool
  | JInt int
  | JFloat string
  | JNaN
  | JInfinity
  | JNegInfinity
  | JString string
  | JArray "json list"
  | JObject "(string \<times> json) list"

datatype token = LBracket | RBracket | LBrace | RBrace | Comma | Colon | Scalar json

definition is_digit :: "char \<Rightarrow> bool" where
  "is_digit c = (48 \<le> (of_char c :: nat) \<and> (of_char c :: nat) \<le> 57)"

definition json_space :: "char \<Rightarrow> bool" where
  "json_space c = (c = CHR '' '' \<or> c = CHR 0x09 \<or> c = CHR 0x0A \<or> c = CHR 0x0D)"

text \<open>
  The number of characters of a string literal after its opening quote, the
  closing quote included; \<^const>\<open>None\<close> when the literal is not well formed.
\<close>

fun string_length :: "string \<Rightarrow> nat option" where
  "string_length [] = None"
| "string_length (c # cs) =
     (if c = CHR 0x22 then Some 1
      else if (of_char c :: nat) < 32 then None
      else if c = CHR 0x5C then
        (case cs of
           [] \<Rightarrow> None
         | e # cs' \<Rightarrow>
             if e \<in> set [CHR 0x22, CHR 0x5C, CHR ''/'', CHR ''b'', CHR ''f'', CHR ''n'', CHR ''r'', CHR ''t'']
             then map_option (\<lambda>n. n + 2) (string_length cs')
             else if e = CHR ''u'' then
               (if 4 \<le> length cs' \<and> list_all (\<lambda>h. digit_value h \<noteq> None) (take 4 cs')
                then map_option (\<lambda>n. n + 6) (string_length (drop 4 cs'))
                else None)
             else None)
      else map_option Suc (string_length cs))"

definition decimal_value :: "string \<Rightarrow> int" where
  "decimal_value ds = foldl (\<lambda>acc c. 10 * acc + int (of_char c - 48)) 0 ds"

text \<open>
  The length of the number literal at the start of a text (0 when there is none)
  and whether it is a float.
\<close>

definition number_length :: "string \<Rightarrow> nat \<times> bool" where
  "number_length s =
     (let sign = (if s \<noteq> [] \<and> hd s = CHR ''-'' then 1 else 0);
          s1 = drop sign s;
          int_len = (if s1 \<noteq> [] \<and> hd s1 = CHR ''0'' then 1
                     else length (takeWhile is_digit s1))
      in if int_len = 0 then (0, False)
         else
           let s2 = drop int_len s1;
               frac_len = (case s2 of
                             d # f # _ \<Rightarrow>
                               if d = CHR ''.'' \<and> is_digit f
                               then 1 + length (takeWhile is_digit (tl s2)) else 0
                           | _ \<Rightarrow> 0);
               s3 = drop frac_len s2;
               exp_len = (case s3 of
                            [] \<Rightarrow> 0
                          | e # r \<Rightarrow>
                              if e = CHR ''e'' \<or> e = CHR ''E'' then
                                (let sg = (if r \<noteq> [] \<and> (hd r = CHR ''+'' \<or> hd r = CHR ''-'')
                                           then 1 else 0);
                                     ds = length (takeWhile is_digit (drop sg r))
                                 in if ds = 0 then 0 else 1 + sg + ds)
                              else 0)
           in (sign + int_len + frac_len + exp_len, 0 < frac_len \<or> 0 < exp_len))"

definition number_value :: "string \<Rightarrow> json" where
  "number_value lit =
     (if snd (number_length lit) then JFloat lit
      else if hd lit = CHR ''-'' then JInt (- decimal_value (tl lit))
      else JInt (decimal_value lit))"

definition starts_with :: "string \<Rightarrow> string \<Rightarrow> bool" where
  "starts_with s p = (take (length p) s = p)"

definition ends_with :: "string \<Rightarrow> string \<Rightarrow> bool" where
  "ends_with s p = (length p \<le> length s \<and> drop (length s - length p) s = p)"

fun tokenize :: "string \<Rightarrow> token list option" where
  "tokenize [] = Some []"
| "tokenize (c # cs) =
     (if json_space c then tokenize cs
      else if c = CHR ''['' then map_option ((#) LBracket) (tokenize cs)
      else if c = CHR '']'' then map_option ((#) RBracket) (tokenize cs)
      else if c = CHR ''{'' then map_option ((#) LBrace) (tokenize cs)
      else if c = CHR ''}'' then map_option ((#) RBrace) (tokenize cs)
      else if c = CHR '','' then map_option ((#) Comma) (tokenize cs)
      else if c = CHR '':'' then map_option ((#) Colon) (tokenize cs)
      else if c = CHR 0x22 then
        (case string_length cs of
           None \<Rightarrow> None
         | Some n \<Rightarrow>
             map_option ((#) (Scalar (JString (take (n - 1) cs)))) (tokenize (drop n cs)))
      else if starts_with (c # cs) ''null'' then
        map_option ((#) (Scalar JNull)) (tokenize (drop 3 cs))
      else if starts_with (c # cs) ''true'' then
        map_option ((#) (Scalar (JBool True))) (tokenize (drop 3 cs))
      else if starts_with (c # cs) ''false'' then
        map_option ((#) (Scalar (JBool False))) (tokenize (drop 4 cs))
      else if starts_with (c # cs) ''NaN'' then
        map_option ((#) (Scalar JNaN)) (tokenize (drop 2 cs))
      else if starts_with (c # cs) ''Infinity'' then
        map_option ((#) (Scalar JInfinity)) (tokenize (drop 7 cs))
      else if starts_with (c # cs) ''-Infinity'' then
        map_option ((#) (Scalar JNegInfinity)) (tokenize (drop 8 cs))
      else
        (let n = fst (number_length (c # cs))
         in if n = 0 then None
            else map_option ((#) (Scalar (number_value (take n (c # cs)))))
                   (tokenize (drop (n - 1) cs))))"

text \<open>
  The grammar, read token by token with the open containers on a stack: an open
  array holds its elements so far, an open object its members so far and the key
  whose value is being read.
\<close>

datatype frame = InArray "json list" | InObject "(string \<times> json) list" "string option"

datatype pstate =
    ExpectValue | ArrayStart | ObjectStart | ExpectKey | ExpectColon | AfterValue | Done json

fun complete :: "json \<Rightarrow> frame list \<Rightarrow> (pstate \<times> frame list) option" where
  "complete v [] = Some (Done v, [])"
| "complete v (InArray es # fs) = Some (AfterValue, InArray (es @ [v]) # fs)"
| "complete v (InObject ms (Some k) # fs) = Some (AfterValue, InObject (ms @ [(k, v)]) None # fs)"
| "complete v (InObject ms None # fs) = None"

fun begin_value :: "frame list \<Rightarrow> token \<Rightarrow> (pstate \<times> frame list) option" where
  "begin_value fs (Scalar v) = complete v fs"
| "begin_value fs LBracket = Some (ArrayStart, InArray [] # fs)"
| "begin_value fs LBrace = Some (ObjectStart, InObject [] None # fs)"
| "begin_value fs _ = None"

fun begin_key :: "frame list \<Rightarrow> token \<Rightarrow> (pstate \<times> frame list) option" where
  "begin_key (InObject ms _ # fs) (Scalar (JString k)) = Some (ExpectColon, InObject ms (Some k) # fs)"
| "begin_key _ _ = None"

fun parse_step :: "pstate \<Rightarrow> frame list \<Rightarrow> token \<Rightarrow> (pstate \<times> frame list) option" where
  "parse_step ExpectValue fs t = begin_value fs t"
| "parse_step ArrayStart (InArray es # fs) RBracket = complete (JArray es) fs"
| "parse_step ArrayStart fs t = begin_value fs t"
| "parse_step ObjectStart (InObject ms k # fs) RBrace = complete (JObject ms) fs"
| "parse_step ObjectStart fs t = begin_key fs t"
| "parse_step ExpectKey fs t = begin_key fs t"
| "parse_step ExpectColon fs Colon = Some (ExpectValue, fs)"
| "parse_step ExpectColon fs _ = None"
| "parse_step AfterValue (InArray es # fs) Comma = Some (ExpectValue, InArray es # fs)"
| "parse_step AfterValue (InArray es # fs) RBracket = complete (JArray es) fs"
| "parse_step AfterValue (InObject ms k # fs) Comma = Some (ExpectKey, InObject ms k # fs)"
| "parse_step AfterValue (InObject ms k # fs) RBrace = complete (JObject ms) fs"
| "parse_step AfterValue _ _ = None"
| "parse_step (Done v) fs t = None"

fun parse_tokens :: "pstate \<Rightarrow> frame list \<Rightarrow> token list \<Rightarrow> json option" where
  "parse_tokens (Done v) [] [] = Some v"
| "parse_tokens st fs [] = None"
| "parse_tokens st fs (t # ts) =
     (case parse_step st fs t of
        None \<Rightarrow> None
      | Some (st', fs') \<Rightarrow> parse_tokens st' fs' ts)"

definition json_loads :: "string \<Rightarrow> json option" where
  "json_loads s =
     (case tokenize s of
        None \<Rightarrow> None
      | Some ts \<Rightarrow> parse_tokens ExpectValue [] ts)"

subsection \<open>Dual-channel serial plotter (\<^verbatim>\<open>RealTimeEKGPlotter\<close>, main.py)\<close>

record plotter = buffers +
  ch0_data :: "json deque"
  ch1_data :: "json deque"
  sample_count :: nat
  start_time :: real

definition RealTimeEKGPlotter :: "nat \<Rightarrow> real \<Rightarrow> plotter" where
  "RealTimeEKGPlotter buffer_size now =
     \<lparr>time_data = deque buffer_size, ch0_data = deque buffer_size,
      ch1_data = deque buffer_size, sample_count = 0, start_time = now\<rparr>"

text \<open>
  One iteration of the loop of \<^verbatim>\<open>read_serial_data\<close>: \<open>raw\<close> is the decoded text of the
  line read from the port, \<open>now\<close> the value \<^verbatim>\<open>time.time()\<close> returns when the frame is
  accepted. A text that starts with \<^verbatim>\<open>[\<close> decodes to a list or not at all; the other
  cases of the \<^verbatim>\<open>case\<close> below are there for totality only.
\<close>

definition read_serial_line :: "plotter \<Rightarrow> real \<Rightarrow> string \<Rightarrow> plotter" where
  "read_serial_line p now raw =
     (let line = strip raw
      in if line = [] \<or> starts_with line ''#'' then p
         else if starts_with line ''['' \<and> ends_with line '']'' then
           (case json_loads line of
              None \<Rightarrow> p
            | Some (JArray data) \<Rightarrow>
                if length data = 2 then
                  let current_time = fsub now (start_time p)
                  in p\<lparr>ch0_data := deque_append (ch0_data p) (data ! 0),
                       ch1_data := deque_append (ch1_data p) (data ! 1),
                       time_data := deque_append (time_data p) current_time,
                       sample_count := sample_count p + 1\<rparr>
                else p
            | Some _ \<Rightarrow> p)
         else p)"


subsection \<open>Vocabulary of the specification\<close>

text \<open>
  A base-16 token is a non-empty string of hexadecimal digits; \<open>base16_value\<close> is the
  number it denotes. \<open>join\<close> puts the separator between consecutive tokens, as a
  sender of a comma-separated line does.
\<close>

definition hex_token :: "string \<Rightarrow> bool" where
  "hex_token t = (t \<noteq> [] \<and> (\<forall>c \<in> set t. digit_value c \<noteq> None))"

definition base16_value :: "string \<Rightarrow> int" where
  "base16_value t = foldl (\<lambda>acc c. 16 * acc + int (the (digit_value c))) 0 t"

fun join :: "char \<Rightarrow> string list \<Rightarrow> string" where
  "join sep [] = []"
| "join sep [t] = t"
| "join sep (t # u # ts) = t @ sep # join sep (u # ts)"

definition example_tokens :: "string list" where
  "example_tokens =
     [''800'', ''801'', ''802'', ''803'', ''804'', ''805'',
      ''806'', ''807'', ''808'', ''809'', ''80A'', ''80B'']"

text \<open>The malformed line of the specification's end-to-end example.\<close>

definition malformed_line :: string where
  "malformed_line = ''1,2,xyz,4,5,6,7,8,9,10,11,12''"



text \<open>
  The x values the plots show for a list of time stamps; a buffer in which the
  offset \<open>c\<close> has been added to every time stamp, by float addition; two widgets that
  hold the time stamps 1 and 3, and two that hold the floats nearest to 0.1 and 0.2.
\<close>

definition x_series :: "real list \<Rightarrow> real list" where
  "x_series ts = map (\<lambda>t. fadd (fsub t (last ts)) 10) ts"

definition shift_times :: "real \<Rightarrow> 'a buffers_scheme \<Rightarrow> 'a buffers_scheme" where
  "shift_times c w =
     w\<lparr>time_data := (time_data w)\<lparr>items := map (\<lambda>t. fadd t c) (items (time_data w))\<rparr>\<rparr>"

definition two_points :: plot_widget where
  "two_points = SingleChannelPlotWidget\<lparr>time_data := push_all (deque 8600) [1, 3],
                                          ekg_data := push_all (deque 8600) [2048, 2049]\<rparr>"

definition two_points_ekg :: ekg_plot_widget where
  "two_points_ekg = EKGPlotWidget\<lparr>time_data := push_all (deque 400) [1, 3],
                                    ekg_data := push_all (deque 400) [2048, 2049]\<rparr>"

definition two_tenths :: plot_widget where
  "two_tenths = SingleChannelPlotWidget\<lparr>time_data := push_all (deque 8600) [fl (1 / 10), fl (2 / 10)],
                                          ekg_data := push_all (deque 8600) [2048, 2049]\<rparr>"

definition two_tenths_ekg :: ekg_plot_widget where
  "two_tenths_ekg = EKGPlotWidget\<lparr>time_data := push_all (deque 400) [fl (1 / 10), fl (2 / 10)],
                                    ekg_data := push_all (deque 400) [2048, 2049]\<rparr>"

section \<open>Properties\<close>

subsection \<open>Clamping\<close>

lemma process_value_range: "0 \<le> process_value t \<and> process_value t \<le> 4095"
  by (simp add: process_value_def)

text \<open>
  Claim C6. For every integer \<open>t\<close>, \<open>process_value t\<close> lies in the range 0 to 4095, is \<open>t\<close>
  itself when \<open>t\<close> already lies in that range, and clamping twice is the same as
  clamping once.
\<close>

theorem process_value_clamp:
  "0 \<le> process_value t \<and> process_value t \<le> 4095 \<and>
   (0 \<le> t \<and> t \<le> 4095 \<longrightarrow> process_value t = t) \<and>
   process_value (process_value t) = process_value t"
  by (simp add: process_value_def)

theorem process_value_clamp_witness:
  "(0::int) \<le> 2048 \<and> (2048::int) \<le> 4095 \<and> process_value 2048 = 2048 \<and>
   process_value (process_value 5000) = process_value 5000"
  using process_value_clamp [of 2048] process_value_clamp [of 5000] by simp

subsection \<open>Splitting, joining and stripping\<close>

lemma digit_value_code:
  "digit_value c \<noteq> None \<Longrightarrow>
     (48 \<le> (of_char c :: nat) \<and> (of_char c :: nat) \<le> 57) \<or>
     (97 \<le> (of_char c :: nat) \<and> (of_char c :: nat) \<le> 102) \<or>
     (65 \<le> (of_char c :: nat) \<and> (of_char c :: nat) \<le> 70)"
  by (simp add: digit_value_def Let_def split: if_splits)

lemma digit_not_special:
  assumes "digit_value c \<noteq> None"
  shows "\<not> isspace c" "\<not> int_space c" "c \<noteq> CHR '',''" "c \<noteq> CHR ''_''"
    "c \<noteq> CHR ''+''" "c \<noteq> CHR ''-''" "c \<noteq> CHR ''x''" "c \<noteq> CHR ''X''"
  using digit_value_code [OF assms] by (auto simp: isspace_def int_space_def)

lemma split_nonempty: "split sep s \<noteq> []"
  by (induction s) auto

lemma split_no_sep: "sep \<notin> set s \<Longrightarrow> split sep s = [s]"
  by (induction s) auto

lemma split_append_sep:
  "sep \<notin> set t \<Longrightarrow> split sep (t @ sep # s) = t # split sep s"
  by (induction t) auto

lemma split_join:
  "ts \<noteq> [] \<Longrightarrow> \<forall>t \<in> set ts. sep \<notin> set t \<Longrightarrow> split sep (join sep ts) = ts"
  by (induction sep ts rule: join.induct) (auto simp: split_no_sep split_append_sep)

lemma dropWhile_rev_last: "xs \<noteq> [] \<Longrightarrow> \<not> P (last xs) \<Longrightarrow> dropWhile P (rev xs) = rev xs"
  by (cases xs rule: rev_cases) auto

lemma strip_id: "s \<noteq> [] \<Longrightarrow> \<not> isspace (hd s) \<Longrightarrow> \<not> isspace (last s) \<Longrightarrow> strip s = s"
proof -
  assume a: "s \<noteq> []" "\<not> isspace (hd s)" "\<not> isspace (last s)"
  from a(1,2) have "dropWhile isspace s = s" by (cases s) auto
  with a(1,3) show ?thesis by (simp add: strip_def dropWhile_rev_last)
qed

lemma join_nonempty: "ts \<noteq> [] \<Longrightarrow> \<forall>t \<in> set ts. t \<noteq> [] \<Longrightarrow> join sep ts \<noteq> []"
  by (induction sep ts rule: join.induct) auto

lemma hd_join: "ts \<noteq> [] \<Longrightarrow> hd ts \<noteq> [] \<Longrightarrow> hd (join sep ts) = hd (hd ts)"
  by (induction sep ts rule: join.induct) auto

lemma last_join:
  "ts \<noteq> [] \<Longrightarrow> \<forall>t \<in> set ts. t \<noteq> [] \<Longrightarrow> last (join sep ts) = last (last ts)"
proof (induction sep ts rule: join.induct)
  case (3 sep t u ts)
  then have "join sep (u # ts) \<noteq> []" by (intro join_nonempty) auto
  with 3 show ?case by simp
qed simp_all

lemma strip_join_hex:
  assumes "ts \<noteq> []" and "\<forall>t \<in> set ts. hex_token t"
  shows "strip (join sep ts) = join sep ts"
proof (rule strip_id)
  from assms show "join sep ts \<noteq> []" by (intro join_nonempty) (auto simp: hex_token_def)
  from assms have h: "hex_token (hd ts)" and l: "hex_token (last ts)" by auto
  from assms have ne: "\<forall>t \<in> set ts. t \<noteq> []" by (auto simp: hex_token_def)
  from h have "digit_value (hd (hd ts)) \<noteq> None" by (simp add: hex_token_def)
  then have "\<not> isspace (hd (hd ts))" by (rule digit_not_special(1))
  with assms h show "\<not> isspace (hd (join sep ts))" by (simp add: hd_join hex_token_def)
  from l have "digit_value (last (last ts)) \<noteq> None" by (simp add: hex_token_def)
  then have "\<not> isspace (last (last ts))" by (rule digit_not_special(1))
  with assms ne show "\<not> isspace (last (join sep ts))" by (simp add: last_join)
qed

lemma scan_digits_hex:
  "\<forall>c \<in> set t. digit_value c \<noteq> None \<Longrightarrow> prev \<noteq> CHR ''_'' \<Longrightarrow>
   scan_digits acc prev t =
     Some (foldl (\<lambda>acc c. 16 * acc + int (the (digit_value c))) acc t, [])"
proof (induction t arbitrary: acc prev)
  case Nil
  then show ?case by simp
next
  case (Cons c cs)
  from Cons.prems have d: "digit_value c \<noteq> None" by simp
  then have u: "c \<noteq> CHR ''_''" by (rule digit_not_special(4))
  from d obtain v where v: "digit_value c = Some v" by auto
  from Cons.prems have "\<forall>c \<in> set cs. digit_value c \<noteq> None" by simp
  from Cons.IH [OF this u] show ?case using u v by simp
qed

lemma int16_hex_token:
  assumes "hex_token t"
  shows "int16 t = Some (base16_value t)"
proof -
  from assms obtain c cs where t: "t = c # cs" by (cases t) (auto simp: hex_token_def)
  from assms have all: "\<forall>c \<in> set t. digit_value c \<noteq> None" by (simp add: hex_token_def)
  with t have d: "digit_value c \<noteq> None" by simp
  note n = digit_not_special [OF d]
  have ws: "dropWhile int_space t = t" using t n(2) by simp
  have sg: "skip_sign t = (1, t)" using t n(5,6) by (simp add: skip_sign_def)
  have px: "skip_prefix t = t"
  proof (cases cs)
    case Nil
    with t show ?thesis by (simp add: skip_prefix_def)
  next
    case (Cons b r)
    with all t have "digit_value b \<noteq> None" by simp
    from digit_not_special(7,8) [OF this] show ?thesis using t Cons by (simp add: skip_prefix_def)
  qed
  have sc: "scan_digits 0 (CHR 0x00) t = Some (base16_value t, [])"
    unfolding base16_value_def by (rule scan_digits_hex [OF all]) simp
  have hdt: "t \<noteq> []" "hd t \<noteq> CHR ''_''" using t n(4) by simp_all
  show ?thesis
    using hdt by (simp add: int16_def ws sg px sc)
qed

lemma convert_line_all:
  "\<forall>t \<in> set ts. int16 t \<noteq> None \<Longrightarrow>
   convert_line acc ts = Some (acc @ map (\<lambda>t. process_value (the (int16 t))) ts)"
  by (induction ts arbitrary: acc) auto

lemma convert_line_bad:
  "\<exists>t \<in> set ts. int16 t = None \<Longrightarrow> convert_line acc ts = None"
  by (induction ts arbitrary: acc) (auto split: option.splits)

text \<open>
  Claim C1. A line made of exactly 12 base-16 tokens separated by commas decodes to
  the 12 values of its tokens, each clamped to the range 0 to 4095, in token order;
  a line that splits into a number of tokens other than 12 yields no frame
  (\<^verbatim>\<open>parse_hex_line\<close> returns \<^verbatim>\<open>None\<close>).
\<close>

theorem parse_hex_line_frame:
  "(length toks = 12 \<and> (\<forall>t \<in> set toks. hex_token t) \<longrightarrow>
      parse_hex_line (join (CHR '','') toks) = Some (map (\<lambda>t. process_value (base16_value t)) toks) \<and>
      length (map (\<lambda>t. process_value (base16_value t)) toks) = 12 \<and>
      (\<forall>v \<in> set (map (\<lambda>t. process_value (base16_value t)) toks). 0 \<le> v \<and> v \<le> 4095)) \<and>
   (length (split (CHR '','') (strip line)) \<noteq> 12 \<longrightarrow> parse_hex_line line = None)"
proof (intro conjI impI)
  assume a: "length toks = 12 \<and> (\<forall>t \<in> set toks. hex_token t)"
  then have ne: "toks \<noteq> []" by auto
  have nocomma: "\<forall>t \<in> set toks. CHR '','' \<notin> set t"
  proof (intro ballI notI)
    fix t assume "t \<in> set toks" and "CHR '','' \<in> set t"
    with a have "digit_value (CHR '','') \<noteq> None" by (simp add: hex_token_def)
    then show False by (simp add: digit_value_def)
  qed
  have sp: "split (CHR '','') (strip (join (CHR '','') toks)) = toks"
    using a ne nocomma by (simp add: strip_join_hex split_join)
  have ok: "\<forall>t \<in> set toks. int16 t \<noteq> None" using a by (simp add: int16_hex_token)
  have "convert_line [] toks = Some (map (\<lambda>t. process_value (the (int16 t))) toks)"
    using convert_line_all [OF ok, of "[]"] by simp
  also have "map (\<lambda>t. process_value (the (int16 t))) toks = map (\<lambda>t. process_value (base16_value t)) toks"
    using a by (simp add: int16_hex_token)
  finally show "parse_hex_line (join (CHR '','') toks) = Some (map (\<lambda>t. process_value (base16_value t)) toks)"
    using a by (simp add: parse_hex_line_def sp)
  show "length (map (\<lambda>t. process_value (base16_value t)) toks) = 12" using a by simp
  show "\<forall>v \<in> set (map (\<lambda>t. process_value (base16_value t)) toks). 0 \<le> v \<and> v \<le> 4095"
    by (auto simp: process_value_range)
next
  assume "length (split (CHR '','') (strip line)) \<noteq> 12"
  then show "parse_hex_line line = None" by (simp add: parse_hex_line_def)
qed

theorem parse_hex_line_frame_witness:
  "length example_tokens = 12 \<and> list_all hex_token example_tokens \<and>
   length (split (CHR '','') (strip ''800,801,802'')) \<noteq> 12 \<and>
   parse_hex_line ''800,801,802,803,804,805,806,807,808,809,80A,80B'' =
     Some [2048, 2049, 2050, 2051, 2052, 2053, 2054, 2055, 2056, 2057, 2058, 2059] \<and>
   parse_hex_line ''800,801,802'' = None"
proof -
  have h: "length example_tokens = 12 \<and> (\<forall>t \<in> set example_tokens. hex_token t)"
    by (simp add: example_tokens_def hex_token_def digit_value_def)
  have l: "length (split (CHR '','') (strip ''800,801,802'')) \<noteq> 12"
    by (simp add: strip_def isspace_def)
  from h l parse_hex_line_frame [of example_tokens "''800,801,802''"]
  show ?thesis
    by (simp add: example_tokens_def base16_value_def digit_value_def process_value_def)
qed

subsection \<open>Bounded buffers\<close>

lemma maxlen_deque_append: "maxlen (deque_append d x) = maxlen d"
  by (simp add: deque_append_def Let_def)

lemma items_deque_append_room:
  "length (items d) < maxlen d \<Longrightarrow> items (deque_append d x) = items d @ [x]"
  by (simp add: deque_append_def Let_def)

lemma items_deque_append_full:
  "length (items d) = maxlen d \<Longrightarrow> items (deque_append d x) = tl (items d @ [x])"
  by (simp add: deque_append_def Let_def)

lemma length_deque_append:
  "length (items d) \<le> maxlen d \<Longrightarrow> length (items (deque_append d x)) \<le> maxlen d"
  by (cases "length (items d) = maxlen d")
     (simp_all add: items_deque_append_full items_deque_append_room)

lemma maxlen_push_all: "maxlen (push_all d xs) = maxlen d"
  by (induction xs arbitrary: d) (simp_all add: maxlen_deque_append)

lemma items_push_all:
  "length (items d) \<le> maxlen d \<Longrightarrow>
   items (push_all d xs) = drop (length (items d) + length xs - maxlen d) (items d @ xs)"
proof (induction xs arbitrary: d)
  case Nil
  then show ?case by simp
next
  case (Cons x xs)
  let ?d = "deque_append d x"
  have inv: "length (items ?d) \<le> maxlen ?d"
    using Cons.prems by (simp add: length_deque_append maxlen_deque_append)
  note ih = Cons.IH [OF inv, unfolded maxlen_deque_append]
  show ?case
  proof (cases "length (items d) = maxlen d")
    case True
    have len: "length (items ?d) = maxlen d"
      using True by (simp add: items_deque_append_full)
    have "items (push_all ?d xs) = drop (length xs) (items ?d @ xs)"
      using ih len by simp
    also have "items ?d @ xs = tl (items d @ x # xs)"
      using True by (cases "items d") (simp_all add: items_deque_append_full)
    also have "drop (length xs) (tl (items d @ x # xs)) = drop (Suc (length xs)) (items d @ x # xs)"
      by (simp only: drop_Suc)
    finally show ?thesis using True by (simp del: drop_append)
  next
    case False
    with Cons.prems have lt: "length (items d) < maxlen d" by simp
    show ?thesis using ih by (simp add: items_deque_append_room [OF lt] del: drop_append)
  qed
qed

lemma length_push_all:
  "length (items d) \<le> maxlen d \<Longrightarrow> length (items (push_all d xs)) \<le> maxlen d"
  by (simp add: items_push_all)

text \<open>
  Claim C3. A buffer of capacity \<open>N\<close> (holding at most \<open>N\<close> items) that receives more
  than \<open>N\<close> pushes holds exactly the last \<open>N\<close> pushed items afterwards, in push order,
  and after every prefix of the pushes its length is at most \<open>N\<close>.
\<close>

theorem deque_keeps_last:
  "length (items d) \<le> maxlen d \<and> maxlen d < length ss \<longrightarrow>
     items (push_all d ss) = drop (length ss - maxlen d) ss \<and>
     length (items (push_all d ss)) = maxlen d \<and>
     (\<forall>k \<le> length ss. length (items (push_all d (take k ss))) \<le> maxlen d)"
proof (intro impI conjI allI)
  assume a: "length (items d) \<le> maxlen d \<and> maxlen d < length ss"
  then have a1: "length (items d) \<le> maxlen d" and a2: "maxlen d < length ss" by simp_all
  from a1 a2 have e: "length (items d) + length ss - maxlen d = length (items d) + (length ss - maxlen d)"
    by arith
  have "items (push_all d ss) = drop (length (items d) + (length ss - maxlen d)) (items d @ ss)"
    using items_push_all [OF a1, of ss] e by simp
  then show r: "items (push_all d ss) = drop (length ss - maxlen d) ss"
    by simp
  show "length (items (push_all d ss)) = maxlen d" using a2 by (simp add: r)
  fix k
  show "length (items (push_all d (take k ss))) \<le> maxlen d"
    using a1 by (rule length_push_all)
qed

theorem deque_keeps_last_witness:
  "length (items (deque 3 :: (nat \<times> char) deque)) \<le> maxlen (deque 3 :: (nat \<times> char) deque) \<and>
   maxlen (deque 3 :: (nat \<times> char) deque) < length [(1::nat, CHR ''A''), (2, CHR ''B''), (3, CHR ''C''), (4, CHR ''D'')] \<and>
   items (push_all (deque 3) [(1::nat, CHR ''A''), (2, CHR ''B''), (3, CHR ''C''), (4, CHR ''D'')]) =
     [(2, CHR ''B''), (3, CHR ''C''), (4, CHR ''D'')]"
  using deque_keeps_last [of "deque 3" "[(1::nat, CHR ''A''), (2, CHR ''B''), (3, CHR ''C''), (4, CHR ''D'')]"]
  by (simp add: deque_def)

subsection \<open>Single-channel batches\<close>

lemma convert_data_skip:
  "convert_data acc toks = convert_data acc (filter (\<lambda>t. strip t \<noteq> []) toks)"
  by (induction toks arbitrary: acc) (auto split: option.splits)

lemma convert_data_blank:
  "\<forall>t \<in> set toks. strip t = [] \<Longrightarrow> convert_data acc toks = acc"
  by (induction toks arbitrary: acc) auto

lemma convert_data_bad:
  "\<exists>t \<in> set toks. strip t \<noteq> [] \<and> int16 t = None \<Longrightarrow> convert_data acc toks = []"
  by (induction toks arbitrary: acc) (auto split: option.splits)

lemma parse_hex_data_example: "parse_hex_data ''800,,801'' = [2048, 2049]"
  by code_simp

text \<open>
  Claim C9. In the single-channel batched variant, tokens that are empty or white
  space only are skipped: \<open>parse_hex_data\<close> of \<^verbatim>\<open>800,,801\<close> is \<open>[2048, 2049]\<close>, the result
  of any line is the result on its non-blank tokens, and a line whose tokens are
  all blank gives the empty list.
\<close>

theorem parse_hex_data_skips_blank:
  "parse_hex_data ''800,,801'' = [2048, 2049] \<and>
   parse_hex_data line =
     convert_data [] (filter (\<lambda>t. strip t \<noteq> []) (split (CHR '','') (strip line))) \<and>
   ((\<forall>t \<in> set (split (CHR '','') (strip line)). strip t = []) \<longrightarrow> parse_hex_data line = [])"
proof (intro conjI impI)
  show "parse_hex_data ''800,,801'' = [2048, 2049]"
    by (rule parse_hex_data_example)
  show "parse_hex_data line =
     convert_data [] (filter (\<lambda>t. strip t \<noteq> []) (split (CHR '','') (strip line)))"
    unfolding parse_hex_data_def by (rule convert_data_skip)
  assume "\<forall>t \<in> set (split (CHR '','') (strip line)). strip t = []"
  then show "parse_hex_data line = []"
    unfolding parse_hex_data_def by (rule convert_data_blank)
qed

lemma blank_tokens_example: "list_all (\<lambda>t. strip t = []) (split (CHR '','') (strip '',, ,''))"
  by code_simp

theorem parse_hex_data_skips_blank_witness:
  "list_all (\<lambda>t. strip t = []) (split (CHR '','') (strip '',, ,'')) \<and> parse_hex_data '',, ,'' = []"
  using parse_hex_data_skips_blank [of "'',, ,''"] blank_tokens_example
  by (simp add: list_all_iff)

lemma add_samples_no_error:
  "n \<noteq> 0 \<or> values = [] \<Longrightarrow> \<exists>w'. add_samples w current_time n i values = Inr w'"
  by (induction "values" arbitrary: w i) (auto simp: Let_def)

lemma add_data_batch_no_error:
  "\<exists>w'. SingleChannelPlotWidget_add_data_batch w current_time values = Inr w'"
proof -
  have "length values \<noteq> 0 \<or> values = []" by simp
  from add_samples_no_error [OF this]
  obtain w1 where "add_samples w current_time (length values) 0 values = Inr w1" by blast
  then show ?thesis by (simp add: SingleChannelPlotWidget_add_data_batch_def)
qed

text \<open>
  Claim C10. The single-channel handler forwards a decoded batch only when the
  parse result is a non-empty list, so every batch that reaches \<open>add_data_batch\<close> has
  at least one value, and \<open>add_data_batch\<close> returns without a division by zero.
\<close>

theorem single_batches_nonempty:
  "fst (Single_handle_message (Text s)) =
     (if strip s \<noteq> [] \<and> parse_hex_data s \<noteq> [] then [parse_hex_data s] else []) \<and>
   fst (Single_handle_message (Binary b)) = [] \<and>
   (\<forall>values \<in> set (fst (Single_handle_message m)).
      1 \<le> length values \<and>
      (\<exists>w'. SingleChannelPlotWidget_add_data_batch w current_time values = Inr w'))"
proof (intro conjI ballI)
  show "fst (Single_handle_message (Text s)) =
     (if strip s \<noteq> [] \<and> parse_hex_data s \<noteq> [] then [parse_hex_data s] else [])"
    by (simp add: Single_handle_message_def Let_def)
  show "fst (Single_handle_message (Binary b)) = []"
    by (simp add: Single_handle_message_def)
next
  fix "values" assume "values \<in> set (fst (Single_handle_message m))"
  then have "values \<noteq> []"
    by (cases m) (auto simp: Single_handle_message_def Let_def split: if_splits)
  then show "1 \<le> length values" by (cases "values") simp_all
  show "\<exists>w'. SingleChannelPlotWidget_add_data_batch w current_time values = Inr w'"
    by (rule add_data_batch_no_error)
qed

lemma single_example: "fst (Single_handle_message (Text ''800,801'')) = [[2048, 2049]]"
  by code_simp

theorem single_batches_nonempty_witness:
  "fst (Single_handle_message (Text ''800,801'')) = [[2048, 2049]] \<and>
   1 \<le> length [2048, 2049 :: int] \<and>
   (\<exists>w'. SingleChannelPlotWidget_add_data_batch SingleChannelPlotWidget 0 [2048, 2049] = Inr w')"
  using single_batches_nonempty [of "''800,801''" "''''" "Text ''800,801''" SingleChannelPlotWidget 0]
  by (simp add: single_example)

subsection \<open>Malformed tokens\<close>

lemma parse_hex_line_bad:
  "\<exists>t \<in> set (split (CHR '','') (strip line)). int16 t = None \<Longrightarrow> parse_hex_line line = None"
  by (simp add: parse_hex_line_def Let_def convert_line_bad)

lemma emit_lines_bad:
  "parse_hex_line line = None \<Longrightarrow> emit_lines (line # lines) = emit_lines lines"
  by simp

lemma parse_hex_data_bad:
  "\<exists>t \<in> set (split (CHR '','') (strip line)). strip t \<noteq> [] \<and> int16 t = None \<Longrightarrow>
   parse_hex_data line = []"
  unfolding parse_hex_data_def by (rule convert_data_bad)

text \<open>
  Claim C5, as amended. In the 12-channel decoder a line with a token that
  \<^verbatim>\<open>int(token, 16)\<close> rejects yields no frame: \<open>parse_hex_line\<close> returns \<^verbatim>\<open>None\<close>, the handler
  emits nothing for the line and the buffers stay as they were. In the
  single-channel decoder the same holds for a line with a token that is not blank
  and that \<^verbatim>\<open>int(token, 16)\<close> rejects: \<open>parse_hex_data\<close> returns the empty list and nothing
  is forwarded. (Blank tokens of the single-channel decoder are skipped.)
\<close>

theorem malformed_token_discards_frame:
  "((\<exists>t \<in> set (split (CHR '','') (strip line)). int16 t = None) \<longrightarrow>
      parse_hex_line line = None \<and>
      emit_lines (line # lines) = emit_lines lines \<and>
      EKG_deliver w (zip clock (emit_lines [line])) = Inr w) \<and>
   ((\<exists>t \<in> set (split (CHR '','') (strip line)). strip t \<noteq> [] \<and> int16 t = None) \<longrightarrow>
      parse_hex_data line = [] \<and>
      fst (Single_handle_message (Text line)) = [] \<and>
      Single_deliver v (zip clock (fst (Single_handle_message (Text line)))) = Inr v)"
proof (intro conjI impI)
  assume "\<exists>t \<in> set (split (CHR '','') (strip line)). int16 t = None"
  then show n: "parse_hex_line line = None" by (rule parse_hex_line_bad)
  then show "emit_lines (line # lines) = emit_lines lines" by simp
  from n show "EKG_deliver w (zip clock (emit_lines [line])) = Inr w" by simp
next
  assume "\<exists>t \<in> set (split (CHR '','') (strip line)). strip t \<noteq> [] \<and> int16 t = None"
  then show e: "parse_hex_data line = []" by (rule parse_hex_data_bad)
  then show f: "fst (Single_handle_message (Text line)) = []"
    by (simp add: Single_handle_message_def)
  then show "Single_deliver v (zip clock (fst (Single_handle_message (Text line)))) = Inr v"
    by simp
qed

lemma malformed_line_token:
  "''xyz'' \<in> set (split (CHR '','') (strip malformed_line)) \<and> strip ''xyz'' \<noteq> [] \<and> int16 ''xyz'' = None"
  by code_simp

theorem malformed_token_discards_frame_witness:
  "''xyz'' \<in> set (split (CHR '','') (strip malformed_line)) \<and> strip ''xyz'' \<noteq> [] \<and>
   int16 ''xyz'' = None \<and>
   parse_hex_line malformed_line = None \<and>
   EKG_deliver EKGPlotWidget (zip [0] (emit_lines [malformed_line])) = Inr EKGPlotWidget \<and>
   parse_hex_data malformed_line = [] \<and>
   fst (Single_handle_message (Text malformed_line)) = []"
proof -
  have b1: "\<exists>t \<in> set (split (CHR '','') (strip malformed_line)). int16 t = None"
    using malformed_line_token by blast
  have b2: "\<exists>t \<in> set (split (CHR '','') (strip malformed_line)). strip t \<noteq> [] \<and> int16 t = None"
    using malformed_line_token by blast
  from malformed_token_discards_frame [of malformed_line "[]" EKGPlotWidget "[0]" SingleChannelPlotWidget] b1 b2
  show ?thesis using malformed_line_token by simp
qed

text \<open>
  The claim as stated fails on the single-channel decoder: the empty token of
  \<^verbatim>\<open>800,,801\<close> is rejected by \<^verbatim>\<open>int(token, 16)\<close>, yet the line decodes to two values,
  which are forwarded and stored.
\<close>

theorem blank_token_frame_accepted:
  "'''' \<in> set (split (CHR '','') (strip ''800,,801'')) \<and>
   int16 '''' = None \<and>
   parse_hex_data ''800,,801'' = [2048, 2049] \<and>
   fst (Single_handle_message (Text ''800,,801'')) = [[2048, 2049]] \<and>
   map_sum id (\<lambda>w. items (ekg_data w))
     (Single_deliver SingleChannelPlotWidget (zip [0] (fst (Single_handle_message (Text ''800,,801'')))))
     = Inr [2048, 2049] \<and>
   items (ekg_data SingleChannelPlotWidget) = []"
  by code_simp

subsection \<open>Too few points to draw\<close>



subsection \<open>Dual-channel frames\<close>

text \<open>
  Claim C2, as amended. In the dual-channel serial variant the two values of an
  accepted frame are appended to the channel buffers exactly as \<^verbatim>\<open>json.loads\<close>
  returns them: there is no conversion to integers and no clamping.
\<close>

theorem read_serial_line_appends_unchanged:
  "starts_with (strip raw) ''['' \<and> ends_with (strip raw) '']'' \<and>
   json_loads (strip raw) = Some (JArray [a, b]) \<longrightarrow>
     read_serial_line p now raw =
       p\<lparr>ch0_data := deque_append (ch0_data p) a,
         ch1_data := deque_append (ch1_data p) b,
         time_data := deque_append (time_data p) (fsub now (start_time p)),
         sample_count := sample_count p + 1\<rparr>"
proof
  assume a: "starts_with (strip raw) ''['' \<and> ends_with (strip raw) '']'' \<and>
   json_loads (strip raw) = Some (JArray [a, b])"
  then have ne: "strip raw \<noteq> []" and nh: "\<not> starts_with (strip raw) ''#''"
    by (auto simp: starts_with_def take_Suc split: list.splits)
  show "read_serial_line p now raw =
       p\<lparr>ch0_data := deque_append (ch0_data p) a,
         ch1_data := deque_append (ch1_data p) b,
         time_data := deque_append (time_data p) (fsub now (start_time p)),
         sample_count := sample_count p + 1\<rparr>"
    using a ne nh by (simp add: read_serial_line_def Let_def)
qed

lemma frame_example:
  "starts_with (strip ''[-5,5000]'') ''['' \<and> ends_with (strip ''[-5,5000]'') '']'' \<and>
   json_loads (strip ''[-5,5000]'') = Some (JArray [JInt (- 5), JInt 5000])"
  by code_simp

theorem read_serial_line_appends_unchanged_witness:
  "json_loads (strip ''[-5,5000]'') = Some (JArray [JInt (- 5), JInt 5000]) \<and>
   read_serial_line (RealTimeEKGPlotter 2000 0) 1 ''[-5,5000]'' =
     (RealTimeEKGPlotter 2000 0)
       \<lparr>ch0_data := deque_append (ch0_data (RealTimeEKGPlotter 2000 0)) (JInt (- 5)),
        ch1_data := deque_append (ch1_data (RealTimeEKGPlotter 2000 0)) (JInt 5000),
        time_data := deque_append (time_data (RealTimeEKGPlotter 2000 0))
          (fsub 1 (start_time (RealTimeEKGPlotter 2000 0))),
        sample_count := sample_count (RealTimeEKGPlotter 2000 0) + 1\<rparr>"
  using read_serial_line_appends_unchanged [of "''[-5,5000]''" "JInt (- 5)" "JInt 5000" "RealTimeEKGPlotter 2000 0" 1]
    frame_example by simp

text \<open>
  The claim as stated fails: the frame \<^verbatim>\<open>[-5,5000]\<close> leaves \<open>-5\<close> and \<open>5000\<close> in the channel
  buffers, not the clamped values 0 and 4095.
\<close>

theorem dual_channel_frame_not_clamped:
  "items (ch0_data (read_serial_line (RealTimeEKGPlotter 2000 0) 1 ''[-5,5000]'')) = [JInt (- 5)] \<and>
   items (ch1_data (read_serial_line (RealTimeEKGPlotter 2000 0) 1 ''[-5,5000]'')) = [JInt 5000] \<and>
   process_value (- 5) = 0 \<and> process_value 5000 = 4095"
  by code_simp

subsection \<open>Rounding to floats\<close>


lemma round_even_of_int: "round_even (of_int n) = n"
  by (simp add: round_even_def Let_def)



lemma ilog2_bounds:
  assumes "0 < x"
  shows "2 powi (ilog2 x) \<le> x \<and> x < 2 powi (ilog2 x + 1)"
proof (cases "1 \<le> x")
  case True
  let ?m = "\<lfloor>x\<rfloor>"
  from True have m: "0 < ?m" by simp
  from bitlen_bounds [OF m] have lo: "2 ^ nat (bitlen ?m - 1) \<le> ?m" and hi: "?m < 2 ^ nat (bitlen ?m)"
    by simp_all
  from m have b1: "1 \<le> bitlen ?m" by (auto simp: bitlen_alt_def)
  have "real_of_int (2 ^ nat (bitlen ?m - 1)) \<le> real_of_int ?m" using lo by (rule of_int_le_iff [THEN iffD2])
  also have "\<dots> \<le> x" by simp
  finally have l: "2 powi (bitlen ?m - 1) \<le> x" using b1 by (simp add: power_int_def)
  from hi have "?m + 1 \<le> 2 ^ nat (bitlen ?m)" by simp
  then have "real_of_int (?m + 1) \<le> real_of_int (2 ^ nat (bitlen ?m))" by (rule of_int_le_iff [THEN iffD2])
  then have up: "real_of_int ?m + 1 \<le> 2 ^ nat (bitlen ?m)" by simp
  have "x < real_of_int ?m + 1" by linarith
  with up have "x < 2 ^ nat (bitlen ?m)" by (rule less_le_trans [rotated])
  then have h: "x < 2 powi (bitlen ?m - 1 + 1)" using b1 by (simp add: power_int_def)
  from True l h show ?thesis by (simp add: ilog2_def)
next
  case False
  then have x1: "x < 1" by simp
  let ?y = "1 / x"
  let ?m = "\<lfloor>?y\<rfloor>"
  let ?j = "bitlen ?m - 1"
  from assms x1 have y1: "1 < ?y" by simp
  then have m: "0 < ?m" by simp
  from bitlen_bounds [OF m] have lo: "2 ^ nat ?j \<le> ?m" and hi: "?m < 2 ^ nat (bitlen ?m)"
    by simp_all
  from m have b1: "1 \<le> bitlen ?m" by (auto simp: bitlen_alt_def)
  then have j0: "0 \<le> ?j" by simp
  have "real_of_int (2 ^ nat ?j) \<le> real_of_int ?m" using lo by (rule of_int_le_iff [THEN iffD2])
  also have "\<dots> \<le> ?y" by simp
  finally have l: "2 ^ nat ?j \<le> ?y" by simp
  from hi have "?m + 1 \<le> 2 ^ nat (bitlen ?m)" by simp
  then have "real_of_int (?m + 1) \<le> real_of_int (2 ^ nat (bitlen ?m))" by (rule of_int_le_iff [THEN iffD2])
  then have up: "real_of_int ?m + 1 \<le> 2 ^ nat (bitlen ?m)" by simp
  have "?y < real_of_int ?m + 1" by linarith
  with up have h: "?y < 2 ^ nat (bitlen ?m)" by (rule less_le_trans [rotated])
  have nat_eq: "nat (bitlen ?m) = Suc (nat ?j)" using b1 by simp
  define P :: real where "P = 2 ^ nat ?j"
  have P0: "0 < P" by (simp add: P_def)
  from l assms have xl: "x * P \<le> 1" by (simp add: field_simps P_def)
  from h assms have xh: "1 < x * (2 * P)" by (simp add: field_simps nat_eq P_def)
  have "(2::real) powi ?j = P" using j0 by (simp add: power_int_def P_def)
  then have pj: "(2::real) powi (- ?j) = 1 / P"
    using power_int_minus_divide [of "2::real" ?j] by simp
  have "(2::real) powi (- ?j - 1) = 1 / 2 powi (?j + 1)"
    using power_int_minus_divide [of "2::real" "?j + 1"] by simp
  also have "(2::real) powi (?j + 1) = 2 * P"
    using j0 by (simp add: power_int_def P_def nat_eq)
  finally have pj1: "(2::real) powi (- ?j - 1) = 1 / (2 * P)" .
  show ?thesis
  proof (cases "x * 2 ^ nat ?j = 1")
    case True
    then have "x * P = 1" by (simp add: P_def)
    then have xe: "x = 1 / P" using P0 by (simp add: field_simps)
    have il: "ilog2 x = - ?j" using x1 True by (simp add: ilog2_def Let_def)
    have "(2::real) powi (- ?j) < 2 powi (- ?j + 1)"
      by (rule power_int_strict_increasing) simp_all
    then show ?thesis unfolding il using xe pj by simp
  next
    case False
    then have il: "ilog2 x = - ?j - 1" using x1 by (simp add: ilog2_def Let_def)
    from False xl have "x * P < 1" by (simp add: P_def)
    then have a: "x < 1 / P" using P0 by (simp add: field_simps)
    from xh have b: "1 / (2 * P) \<le> x" using P0 by (simp add: field_simps)
    show ?thesis unfolding il using a b pj pj1 by simp
  qed
qed

lemma ilog2_unique:
  assumes "2 powi k \<le> x" and "x < 2 powi (k + 1)"
  shows "ilog2 x = k"
proof -
  have x0: "0 < x" using assms(1) by (rule less_le_trans [rotated]) simp
  note b = ilog2_bounds [OF x0]
  have "\<not> k < ilog2 x"
  proof
    assume "k < ilog2 x"
    then have "(2::real) powi (k + 1) \<le> 2 powi (ilog2 x)"
      by (intro power_int_increasing) simp_all
    with b assms show False by linarith
  qed
  moreover have "\<not> ilog2 x < k"
  proof
    assume "ilog2 x < k"
    then have "(2::real) powi (ilog2 x + 1) \<le> 2 powi k"
      by (intro power_int_increasing) simp_all
    with b assms show False by linarith
  qed
  ultimately show ?thesis by simp
qed






lemma powi_shift: "(2::real) powi k = 2 ^ n * 2 powi (k - int n)"
proof -
  have "(2::real) powi k = 2 powi (int n + (k - int n))" by simp
  also have "\<dots> = 2 powi (int n) * 2 powi (k - int n)" by (rule power_int_add) simp
  finally show ?thesis by simp
qed

lemma powi_52: "(2::real) powi k = 2 ^ 52 * 2 powi (k - 52)"
  using powi_shift [of k 52] by simp

lemma powi_53: "(2::real) powi (k + 1) = 2 ^ 53 * 2 powi (k - 52)"
proof -
  have "k + 1 - int 53 = k - 52" by simp
  with powi_shift [of "k + 1" 53] show ?thesis by (simp only:)
qed







lemma fl_pos_exact:
  assumes "2 ^ 52 \<le> M" and "M < 2 ^ 53"
  shows "fl_pos (of_int M * 2 powi E) = of_int M * 2 powi E"
proof -
  let ?x = "real_of_int M * 2 powi E"
  have p: "(0::real) < 2 powi E" by simp
  from assms(1) have "real_of_int (2 ^ 52) \<le> of_int M" by (simp only: of_int_le_iff)
  then have M1: "(2::real) ^ 52 \<le> of_int M" by simp
  from assms(2) have "real_of_int M < of_int (2 ^ 53)" by (simp only: of_int_less_iff)
  then have M2: "real_of_int M < 2 ^ 53" by simp
  note M = M1 M2
  have a: "(2::real) powi (E + 52) = 2 ^ 52 * 2 powi E"
    using powi_52 [of "E + 52"] by simp
  have b: "(2::real) powi (E + 52 + 1) = 2 ^ 53 * 2 powi E"
    using powi_53 [of "E + 52"] by simp
  have k: "ilog2 ?x = E + 52"
  proof (rule ilog2_unique)
    show "2 powi (E + 52) \<le> ?x" unfolding a using M p by (simp add: mult_right_mono)
    show "?x < 2 powi (E + 52 + 1)" unfolding b using M p by (simp add: mult_strict_right_mono)
  qed
  show ?thesis
    unfolding fl_pos_def Let_def k by (simp add: round_even_of_int)
qed


lemma fl_zero: "fl 0 = 0"
  by (simp add: fl_def)








lemma fl_of_nat:
  assumes "n < 2 ^ 53"
  shows "fl (real n) = real n"
proof (cases "n = 0")
  case True
  then show ?thesis by (simp add: fl_zero)
next
  case False
  let ?m = "int n"
  let ?b = "bitlen ?m"
  from False have m: "0 < ?m" by simp
  from bitlen_bounds [OF m] have lo: "2 ^ nat (?b - 1) \<le> ?m" and hi: "?m < 2 ^ nat ?b"
    by simp_all
  from m have b1: "1 \<le> ?b" by (auto simp: bitlen_alt_def)
  from assms have "int n < int (2 ^ 53)" by (simp only: of_nat_less_iff)
  then have mlt: "?m < 2 ^ 53" by simp
  from lo mlt have "(2::int) ^ nat (?b - 1) < 2 ^ 53" by (rule le_less_trans)
  then have "nat (?b - 1) < 53" by (rule power_less_imp_less_exp [rotated]) simp
  then have b53: "?b \<le> 53" by simp
  define s where "s = nat (53 - ?b)"
  have e1: "nat (?b - 1) + s = 52" using b1 b53 by (simp add: s_def)
  have e2: "nat ?b + s = 53" using b1 b53 by (simp add: s_def)
  have M1: "2 ^ 52 \<le> ?m * 2 ^ s"
    using lo mult_right_mono [of "2 ^ nat (?b - 1)" ?m "2 ^ s"]
    by (simp add: power_add [symmetric] e1)
  have M2: "?m * 2 ^ s < 2 ^ 53"
    using hi mult_strict_right_mono [of ?m "2 ^ nat ?b" "2 ^ s"]
    by (simp add: power_add [symmetric] e2)
  have ex: "fl_pos (of_int (?m * 2 ^ s) * 2 powi (- int s)) = of_int (?m * 2 ^ s) * 2 powi (- int s)"
    using M1 M2 by (rule fl_pos_exact)
  have eq: "real_of_int (?m * 2 ^ s) * 2 powi (- int s) = real n"
    by (simp add: power_int_minus field_simps)
  have "fl_pos (real n) = real n" using ex unfolding eq .
  then show ?thesis using False by (simp add: fl_def)
qed

subsection \<open>Time stamps within a batch\<close>




















subsection \<open>The window of the plot\<close>

lemma fl_ten: "fl 10 = 10"
  using fl_of_nat [of 10] by simp

lemma x_series_last: "ts \<noteq> [] \<Longrightarrow> last (x_series ts) = 10"
  by (simp add: x_series_def last_map fadd_def fsub_def fl_zero fl_ten)

lemma x_series_exact_shift:
  assumes "\<forall>t \<in> set ts. fadd t c = t + c"
  shows "x_series (map (\<lambda>t. fadd t c) ts) = x_series ts"
proof (cases "ts = []")
  case True
  then show ?thesis by (simp add: x_series_def)
next
  case False
  from assms have m: "map (\<lambda>t. fadd t c) ts = map (\<lambda>t. t + c) ts" by simp
  from False have "last (map (\<lambda>t. t + c) ts) = last ts + c" by (simp add: last_map)
  then show ?thesis unfolding m by (simp add: x_series_def fsub_def)
qed

lemma EKG_line_data:
  "2 \<le> length (items (time_data w)) \<Longrightarrow>
   fst (line_data (EKGPlotWidget_update_plot w)) = x_series (items (time_data w))"
  by (simp add: EKGPlotWidget_update_plot_def Let_def x_series_def)

lemma Single_line_data:
  "2 \<le> length (items (time_data w)) \<Longrightarrow>
   fst (line_data (SingleChannelPlotWidget_update_plot w)) = x_series (items (time_data w))"
  by (simp add: SingleChannelPlotWidget_update_plot_def Let_def x_series_def)

text \<open>
  Claim C8, as amended. With at least two points in the buffer, the x values given
  to the line are \<^verbatim>\<open>t - t_last + 10\<close> for each time stamp \<open>t\<close>, as float arithmetic
  evaluates it, and the latest point is at \<open>x = 10\<close>. Adding an offset \<open>c\<close> to all
  time stamps leaves the x values as they are when each of the additions is exact,
  that is, when no sum \<open>t + c\<close> has to be rounded.
\<close>

theorem window_x_series:
  "(2 \<le> length (items (time_data w)) \<longrightarrow>
      fst (line_data (EKGPlotWidget_update_plot w)) =
        map (\<lambda>t. fadd (fsub t (last (items (time_data w)))) 10) (items (time_data w)) \<and>
      last (fst (line_data (EKGPlotWidget_update_plot w))) = 10 \<and>
      ((\<forall>t \<in> set (items (time_data w)). fadd t c = t + c) \<longrightarrow>
         fst (line_data (EKGPlotWidget_update_plot (shift_times c w))) =
           fst (line_data (EKGPlotWidget_update_plot w)))) \<and>
   (2 \<le> length (items (time_data v)) \<longrightarrow>
      fst (line_data (SingleChannelPlotWidget_update_plot v)) =
        map (\<lambda>t. fadd (fsub t (last (items (time_data v)))) 10) (items (time_data v)) \<and>
      last (fst (line_data (SingleChannelPlotWidget_update_plot v))) = 10 \<and>
      ((\<forall>t \<in> set (items (time_data v)). fadd t c = t + c) \<longrightarrow>
         fst (line_data (SingleChannelPlotWidget_update_plot (shift_times c v))) =
           fst (line_data (SingleChannelPlotWidget_update_plot v))))"
proof (intro conjI impI)
  assume a: "2 \<le> length (items (time_data w))"
  then have ne: "items (time_data w) \<noteq> []" by auto
  show "fst (line_data (EKGPlotWidget_update_plot w)) =
        map (\<lambda>t. fadd (fsub t (last (items (time_data w)))) 10) (items (time_data w))"
    using EKG_line_data [OF a] by (simp add: x_series_def)
  show "last (fst (line_data (EKGPlotWidget_update_plot w))) = 10"
    using ne by (simp add: EKG_line_data [OF a] x_series_last)
next
  assume a: "2 \<le> length (items (time_data w))"
    and e: "\<forall>t \<in> set (items (time_data w)). fadd t c = t + c"
  from a have s: "2 \<le> length (items (time_data (shift_times c w)))"
    by (simp add: shift_times_def)
  have i: "items (time_data (shift_times c w)) = map (\<lambda>t. fadd t c) (items (time_data w))"
    by (simp add: shift_times_def)
  show "fst (line_data (EKGPlotWidget_update_plot (shift_times c w))) =
        fst (line_data (EKGPlotWidget_update_plot w))"
    unfolding EKG_line_data [OF a] EKG_line_data [OF s] i
    using e by (rule x_series_exact_shift)
next
  assume a: "2 \<le> length (items (time_data v))"
  then have ne: "items (time_data v) \<noteq> []" by auto
  show "fst (line_data (SingleChannelPlotWidget_update_plot v)) =
        map (\<lambda>t. fadd (fsub t (last (items (time_data v)))) 10) (items (time_data v))"
    using Single_line_data [OF a] by (simp add: x_series_def)
  show "last (fst (line_data (SingleChannelPlotWidget_update_plot v))) = 10"
    using ne by (simp add: Single_line_data [OF a] x_series_last)
next
  assume a: "2 \<le> length (items (time_data v))"
    and e: "\<forall>t \<in> set (items (time_data v)). fadd t c = t + c"
  from a have s: "2 \<le> length (items (time_data (shift_times c v)))"
    by (simp add: shift_times_def)
  have i: "items (time_data (shift_times c v)) = map (\<lambda>t. fadd t c) (items (time_data v))"
    by (simp add: shift_times_def)
  show "fst (line_data (SingleChannelPlotWidget_update_plot (shift_times c v))) =
        fst (line_data (SingleChannelPlotWidget_update_plot v))"
    unfolding Single_line_data [OF a] Single_line_data [OF s] i
    using e by (rule x_series_exact_shift)
qed

lemma two_points_times: "items (time_data two_points) = [1, 3]"
  by (simp add: two_points_def deque_def deque_append_def)

lemma two_points_ekg_times: "items (time_data two_points_ekg) = [1, 3]"
  by (simp add: two_points_ekg_def deque_def deque_append_def)

lemma two_points_values:
  "fadd (fsub 1 3) 10 = 8 \<and> fadd (fsub 3 3) 10 = 10 \<and>
   fadd 1 1762250000 = 1 + 1762250000 \<and> fadd 3 1762250000 = 3 + 1762250000"
  by code_simp

theorem window_x_series_witness:
  "2 \<le> length (items (time_data two_points_ekg)) \<and>
   list_all (\<lambda>t. fadd t 1762250000 = t + 1762250000) (items (time_data two_points_ekg)) \<and>
   fst (line_data (EKGPlotWidget_update_plot two_points_ekg)) = [8, 10] \<and>
   fst (line_data (EKGPlotWidget_update_plot (shift_times 1762250000 two_points_ekg))) = [8, 10] \<and>
   2 \<le> length (items (time_data two_points)) \<and>
   list_all (\<lambda>t. fadd t 1762250000 = t + 1762250000) (items (time_data two_points)) \<and>
   fst (line_data (SingleChannelPlotWidget_update_plot two_points)) = [8, 10] \<and>
   last (fst (line_data (SingleChannelPlotWidget_update_plot two_points))) = 10 \<and>
   fst (line_data (SingleChannelPlotWidget_update_plot (shift_times 1762250000 two_points))) = [8, 10]"
proof -
  have h: "2 \<le> length (items (time_data two_points))" by (simp add: two_points_times)
  have g: "2 \<le> length (items (time_data two_points_ekg))" by (simp add: two_points_ekg_times)
  have eh: "\<forall>t \<in> set (items (time_data two_points)). fadd t 1762250000 = t + 1762250000"
    using two_points_values by (simp add: two_points_times)
  have eg: "\<forall>t \<in> set (items (time_data two_points_ekg)). fadd t 1762250000 = t + 1762250000"
    using two_points_values by (simp add: two_points_ekg_times)
  from window_x_series [of two_points_ekg 1762250000 two_points] h g eh eg
  show ?thesis
    using two_points_values by (simp add: two_points_times two_points_ekg_times)
qed

lemma two_tenths_times: "items (time_data two_tenths) = [fl (1 / 10), fl (2 / 10)]"
  by (simp add: two_tenths_def deque_def deque_append_def)

lemma two_tenths_ekg_times: "items (time_data two_tenths_ekg) = [fl (1 / 10), fl (2 / 10)]"
  by (simp add: two_tenths_ekg_def deque_def deque_append_def)

lemma two_tenths_values:
  "fadd (fsub (fl (1 / 10)) (fl (2 / 10))) 10 = 5573204538870989 / 562949953421312 \<and>
   fadd (fsub (fadd (fl (1 / 10)) 1762250000) (fadd (fl (2 / 10)) 1762250000)) 10
     = 41523609 / 4194304 \<and>
   (5573204538870989 / 562949953421312 :: real) \<noteq> 41523609 / 4194304"
  by code_simp

lemma fsub_self: "fadd (fsub t t) 10 = 10"
  by (simp add: fadd_def fsub_def fl_zero fl_ten)

text \<open>
  The claim as stated fails: for the time stamps 0.1 and 0.2, adding the offset
  1762250000 to both changes the first x value from 9.9 to 9.899999856948853,
  because the two sums are rounded.
\<close>

theorem window_x_series_shift_differs:
  "fst (line_data (SingleChannelPlotWidget_update_plot two_tenths)) =
     [5573204538870989 / 562949953421312, 10] \<and>
   fst (line_data (SingleChannelPlotWidget_update_plot (shift_times 1762250000 two_tenths))) =
     [41523609 / 4194304, 10] \<and>
   fst (line_data (EKGPlotWidget_update_plot two_tenths_ekg)) =
     [5573204538870989 / 562949953421312, 10] \<and>
   fst (line_data (EKGPlotWidget_update_plot (shift_times 1762250000 two_tenths_ekg))) =
     [41523609 / 4194304, 10] \<and>
   (5573204538870989 / 562949953421312 :: real) \<noteq> 41523609 / 4194304"
proof -
  have 1: "2 \<le> length (items (time_data two_tenths))" by (simp add: two_tenths_times)
  have 2: "2 \<le> length (items (time_data (shift_times 1762250000 two_tenths)))"
    by (simp add: shift_times_def two_tenths_times)
  have 3: "2 \<le> length (items (time_data two_tenths_ekg))" by (simp add: two_tenths_ekg_times)
  have 4: "2 \<le> length (items (time_data (shift_times 1762250000 two_tenths_ekg)))"
    by (simp add: shift_times_def two_tenths_ekg_times)
  have a: "x_series [fl (1 / 10), fl (2 / 10)] = [5573204538870989 / 562949953421312, 10]"
    using two_tenths_values by (simp add: x_series_def fsub_self)
  have b: "x_series [fadd (fl (1 / 10)) 1762250000, fadd (fl (2 / 10)) 1762250000] =
      [41523609 / 4194304, 10]"
    using two_tenths_values by (simp add: x_series_def fsub_self)
  have i: "items (time_data (shift_times 1762250000 two_tenths)) =
      [fadd (fl (1 / 10)) 1762250000, fadd (fl (2 / 10)) 1762250000]"
    by (simp add: shift_times_def two_tenths_times)
  have j: "items (time_data (shift_times 1762250000 two_tenths_ekg)) =
      [fadd (fl (1 / 10)) 1762250000, fadd (fl (2 / 10)) 1762250000]"
    by (simp add: shift_times_def two_tenths_ekg_times)
  show ?thesis
    unfolding Single_line_data [OF 1] Single_line_data [OF 2] EKG_line_data [OF 3]
      EKG_line_data [OF 4] i j two_tenths_times two_tenths_ekg_times a b
    using two_tenths_values by simp
qed

end
